theory Spec2Isabelle
  imports Complex_Main "HOL-Library.AList"
begin

section \<open>JavaScript values\<close>

text \<open>
  The engine is TypeScript running in a browser. A JavaScript number is modelled as an
  exact real, or one of the three non-finite numbers; the rounding of IEEE doubles and the
  sign of zero are not modelled. Strings are lists of 8-bit characters (attribute names and
  values are taken to be ASCII).
\<close>

datatype number = NaN | PInfinity | NInfinity | Finite real

datatype json =
    JNull
  | JBool bool
  | JNum number
  | JStr string
  | JArr "json list"
  | JObj "(string \<times> json) list"

text \<open>What \<open>parseAttributeValue\<close> returns: the \<open>any\<close> of an option record.\<close>

datatype val = VBool bool | VNum number | VStr string | VJson json

text \<open>
  Built-ins of the host that the source calls and that are not part of the repository are
  parameters of the model: \<open>JSON.parse\<close> (\<open>None\<close> when it throws), the decimal text of a
  finite number (\<open>Number.prototype.toString\<close>), and the conversion of a string to a number
  that arithmetic applies to a string operand.
\<close>

record host =
  JSON_parse :: "string \<Rightarrow> json option"
  formatFinite :: "real \<Rightarrow> string"
  StringToNumber :: "string \<Rightarrow> number"

subsection \<open>Arithmetic on numbers\<close>

fun jneg :: "number \<Rightarrow> number" where
  "jneg NaN = NaN"
| "jneg PInfinity = NInfinity"
| "jneg NInfinity = PInfinity"
| "jneg (Finite r) = Finite (- r)"

fun jmul :: "number \<Rightarrow> number \<Rightarrow> number" where
  "jmul (Finite a) (Finite b) = Finite (a * b)"
| "jmul NaN _ = NaN"
| "jmul _ NaN = NaN"
| "jmul (Finite a) PInfinity = (if a = 0 then NaN else if 0 < a then PInfinity else NInfinity)"
| "jmul (Finite a) NInfinity = (if a = 0 then NaN else if 0 < a then NInfinity else PInfinity)"
| "jmul PInfinity (Finite b) = (if b = 0 then NaN else if 0 < b then PInfinity else NInfinity)"
| "jmul NInfinity (Finite b) = (if b = 0 then NaN else if 0 < b then NInfinity else PInfinity)"
| "jmul PInfinity PInfinity = PInfinity"
| "jmul PInfinity NInfinity = NInfinity"
| "jmul NInfinity PInfinity = NInfinity"
| "jmul NInfinity NInfinity = PInfinity"

fun jadd :: "number \<Rightarrow> number \<Rightarrow> number" where
  "jadd (Finite a) (Finite b) = Finite (a + b)"
| "jadd NaN _ = NaN"
| "jadd _ NaN = NaN"
| "jadd PInfinity NInfinity = NaN"
| "jadd NInfinity PInfinity = NaN"
| "jadd PInfinity _ = PInfinity"
| "jadd NInfinity _ = NInfinity"
| "jadd (Finite a) PInfinity = PInfinity"
| "jadd (Finite a) NInfinity = NInfinity"

text \<open>Division, as far as the source uses it: a finite dividend and a finite divisor.\<close>

definition jdivFinite :: "real \<Rightarrow> real \<Rightarrow> number" where
  "jdivFinite a b =
     (if b = 0 then (if a = 0 then NaN else if 0 < a then PInfinity else NInfinity)
      else Finite (a / b))"

fun jdiv :: "number \<Rightarrow> real \<Rightarrow> number" where
  "jdiv (Finite a) b = jdivFinite a b"
| "jdiv NaN b = NaN"
| "jdiv PInfinity b = (if 0 \<le> b then PInfinity else NInfinity)"
| "jdiv NInfinity b = (if 0 \<le> b then NInfinity else PInfinity)"

text \<open>\<open>a < b\<close> of JavaScript: false as soon as one side is \<open>NaN\<close>.\<close>

fun jless :: "number \<Rightarrow> number \<Rightarrow> bool" where
  "jless NaN _ = False"
| "jless _ NaN = False"
| "jless (Finite a) (Finite b) = (a < b)"
| "jless NInfinity NInfinity = False"
| "jless NInfinity _ = True"
| "jless _ NInfinity = False"
| "jless PInfinity _ = False"
| "jless (Finite a) PInfinity = True"

text \<open>\<open>Math.max\<close> and \<open>Math.min\<close> of two numbers: \<open>NaN\<close> if either is.\<close>

definition Math_max :: "number \<Rightarrow> number \<Rightarrow> number" where
  "Math_max a b = (if a = NaN \<or> b = NaN then NaN else if jless a b then b else a)"

definition Math_min :: "number \<Rightarrow> number \<Rightarrow> number" where
  "Math_min a b = (if a = NaN \<or> b = NaN then NaN else if jless b a then b else a)"

subsection \<open>Truthiness and conversion to string and number\<close>

fun truthy_json :: "json \<Rightarrow> bool" where
  "truthy_json JNull = False"
| "truthy_json (JBool b) = b"
| "truthy_json (JNum n) = (n \<noteq> NaN \<and> n \<noteq> Finite 0)"
| "truthy_json (JStr s) = (s \<noteq> [])"
| "truthy_json (JArr _) = True"
| "truthy_json (JObj _) = True"

fun truthy :: "val \<Rightarrow> bool" where
  "truthy (VBool b) = b"
| "truthy (VNum n) = (n \<noteq> NaN \<and> n \<noteq> Finite 0)"
| "truthy (VStr s) = (s \<noteq> [])"
| "truthy (VJson j) = truthy_json j"

text \<open>A value read from an option record: \<open>undefined\<close> when the key is absent.\<close>

definition truthy_opt :: "val option \<Rightarrow> bool" where
  "truthy_opt v = (case v of None \<Rightarrow> False | Some x \<Rightarrow> truthy x)"

fun numberToString :: "host \<Rightarrow> number \<Rightarrow> string" where
  "numberToString H NaN = ''NaN''"
| "numberToString H PInfinity = ''Infinity''"
| "numberToString H NInfinity = ''-Infinity''"
| "numberToString H (Finite r) = formatFinite H r"

definition joinComma :: "string list \<Rightarrow> string" where
  "joinComma xs = (case xs of [] \<Rightarrow> [] | y # ys \<Rightarrow> foldl (\<lambda>acc s. acc @ '','' @ s) y ys)"

text \<open>\<open>String(j)\<close>: an array joins the strings of its elements (\<open>null\<close> gives the empty
  string there), an object prints as \<open>[object Object]\<close>.\<close>

fun json_toString :: "host \<Rightarrow> json \<Rightarrow> string" where
  "json_toString H JNull = ''null''"
| "json_toString H (JBool b) = (if b then ''true'' else ''false'')"
| "json_toString H (JNum n) = numberToString H n"
| "json_toString H (JStr s) = s"
| "json_toString H (JArr xs) =
     joinComma (map (\<lambda>x. if x = JNull then [] else json_toString H x) xs)"
| "json_toString H (JObj _) = ''[object Object]''"

fun toString :: "host \<Rightarrow> val \<Rightarrow> string" where
  "toString H (VBool b) = (if b then ''true'' else ''false'')"
| "toString H (VNum n) = numberToString H n"
| "toString H (VStr s) = s"
| "toString H (VJson j) = json_toString H j"

fun toNumber :: "host \<Rightarrow> val \<Rightarrow> number" where
  "toNumber H (VBool b) = Finite (if b then 1 else 0)"
| "toNumber H (VNum n) = n"
| "toNumber H (VStr s) = StringToNumber H s"
| "toNumber H (VJson j) = StringToNumber H (json_toString H j)"

subsection \<open>Strings\<close>

definition startsWith :: "string \<Rightarrow> string \<Rightarrow> bool" where
  "startsWith s p = (take (length p) s = p)"

definition endsWith :: "string \<Rightarrow> string \<Rightarrow> bool" where
  "endsWith s p = (length p \<le> length s \<and> drop (length s - length p) s = p)"

definition isDigit :: "char \<Rightarrow> bool" where
  "isDigit c = (48 \<le> (of_char c :: nat) \<and> (of_char c :: nat) \<le> 57)"

definition isLower :: "char \<Rightarrow> bool" where
  "isLower c = (97 \<le> (of_char c :: nat) \<and> (of_char c :: nat) \<le> 122)"

definition isWhiteSpace :: "char \<Rightarrow> bool" where
  "isWhiteSpace c = ((9 \<le> (of_char c :: nat) \<and> (of_char c :: nat) \<le> 13) \<or> (of_char c :: nat) = 32)"

text \<open>The upper-case form of a letter \<open>a\<close> to \<open>z\<close> clears bit 5 of its code.\<close>

fun clearBit5 :: "char \<Rightarrow> char" where
  "clearBit5 (Char b0 b1 b2 b3 b4 b5 b6 b7) = Char b0 b1 b2 b3 b4 False b6 b7"

definition toUpperCase :: "char \<Rightarrow> char" where
  "toUpperCase c = (if isLower c then clearBit5 c else c)"

definition digitsValue :: "string \<Rightarrow> nat" where
  "digitsValue ds = foldl (\<lambda>a c. 10 * a + ((of_char c :: nat) - 48)) 0 ds"

text \<open>\<open>value.trim()\<close>.\<close>

definition trim :: "string \<Rightarrow> string" where
  "trim s = rev (dropWhile isWhiteSpace (rev (dropWhile isWhiteSpace s)))"

text \<open>\<open>value.replace('%', '')\<close>: the first occurrence only.\<close>

fun removeFirst :: "char \<Rightarrow> string \<Rightarrow> string" where
  "removeFirst c [] = []"
| "removeFirst c (x # xs) = (if x = c then xs else x # removeFirst c xs)"

subsection \<open>parseFloat\<close>

text \<open>
  \<open>parseFloat\<close> skips leading white space and reads the longest prefix that is a decimal
  literal: a sign, then \<open>Infinity\<close> or digits with an optional fraction and an optional
  exponent; \<open>NaN\<close> when there is no such prefix.
\<close>

definition exponentPart :: "string \<Rightarrow> int" where
  "exponentPart s =
     (case s of
        [] \<Rightarrow> 0
      | c # r \<Rightarrow>
          if c = CHR ''e'' \<or> c = CHR ''E'' then
            (let neg = (r \<noteq> [] \<and> hd r = CHR ''-'');
                 r' = (if r \<noteq> [] \<and> (hd r = CHR ''-'' \<or> hd r = CHR ''+'') then tl r else r);
                 ds = takeWhile isDigit r'
             in if ds = [] then 0
                else if neg then - int (digitsValue ds) else int (digitsValue ds))
          else 0)"

definition scale10 :: "real \<Rightarrow> int \<Rightarrow> real" where
  "scale10 x e = (if 0 \<le> e then x * 10 ^ nat e else x / 10 ^ nat (- e))"

definition parseUnsigned :: "string \<Rightarrow> number" where
  "parseUnsigned s =
     (if startsWith s ''Infinity'' then PInfinity
      else
        (let ip = takeWhile isDigit s;
             r1 = dropWhile isDigit s;
             hasDot = (r1 \<noteq> [] \<and> hd r1 = CHR ''.'');
             fp = (if hasDot then takeWhile isDigit (tl r1) else []);
             r2 = (if hasDot then dropWhile isDigit (tl r1) else r1)
         in if ip = [] \<and> fp = [] then NaN
            else Finite (scale10 (real (digitsValue (ip @ fp)) / 10 ^ length fp)
                                 (exponentPart r2))))"

definition parseFloat :: "string \<Rightarrow> number" where
  "parseFloat s =
     (case dropWhile isWhiteSpace s of
        [] \<Rightarrow> NaN
      | c # r \<Rightarrow>
          if c = CHR ''-'' then jneg (parseUnsigned r)
          else if c = CHR ''+'' then parseUnsigned r
          else parseUnsigned (c # r))"

section \<open>AttributeParser\<close>

record AnimationConfig =
  attributeName :: string
  defaultAnimation :: "string option"
  useDataAttributeFallback :: bool

definition DEFAULT_CONFIG :: AnimationConfig where
  "DEFAULT_CONFIG =
     \<lparr>attributeName = ''kw'', defaultAnimation = Some ''fade-in'',
      useDataAttributeFallback = False\<rparr>"

text \<open>
  \<open>commonAttributes\<close> is the ordered table of \<open>(attributeSuffix, optionName)\<close> pairs,
  \<open>moduleValueMappings\<close> the shorthand table. An option record (\<open>Record<string, any>\<close>) is
  a finite map; properties inherited from \<open>Object.prototype\<close> are not modelled.
\<close>

record AttributeParser =
  config :: AnimationConfig
  commonAttributes :: "(string \<times> string) list"
  moduleValueMappings :: "string \<rightharpoonup> string"

type_synonym options = "string \<rightharpoonup> val"

text \<open>\<open>element.attributes\<close>: the attributes in document order, names distinct.\<close>

type_synonym attrs = "(string \<times> string) list"

record ParsedElementOptions =
  module :: string
  options :: options

definition newAttributeParser :: AttributeParser where
  "newAttributeParser =
     \<lparr>config = DEFAULT_CONFIG,
      commonAttributes =
        [(''duration'', ''duration''), (''delay'', ''delay''), (''repeat'', ''repeat''),
         (''speed'', ''speed''), (''direction'', ''direction''), (''easing'', ''easing''),
         (''class'', ''class''), (''from'', ''from''), (''to'', ''to''),
         (''start'', ''start''), (''end'', ''end''), (''inview'', ''inview'')],
      moduleValueMappings = [''parallax'' \<mapsto> ''speed'']\<rparr>"

text \<open>A \<open>Partial<AnimationConfig>\<close>: each key present or absent. \<open>setConfig\<close> spreads it
  over the configuration held.\<close>

record PartialConfig =
  set_attributeName :: "string option"
  set_defaultAnimation :: "string option option"
  set_useDataAttributeFallback :: "bool option"

definition mergeConfig :: "AnimationConfig \<Rightarrow> PartialConfig \<Rightarrow> AnimationConfig" where
  "mergeConfig c p =
     \<lparr>attributeName = (case set_attributeName p of None \<Rightarrow> attributeName c | Some x \<Rightarrow> x),
      defaultAnimation = (case set_defaultAnimation p of None \<Rightarrow> defaultAnimation c | Some x \<Rightarrow> x),
      useDataAttributeFallback =
        (case set_useDataAttributeFallback p of None \<Rightarrow> useDataAttributeFallback c | Some x \<Rightarrow> x)\<rparr>"

definition setConfig :: "PartialConfig \<Rightarrow> AttributeParser \<Rightarrow> AttributeParser" where
  "setConfig p P = P\<lparr>config := mergeConfig (config P) p\<rparr>"

definition addCommonAttribute :: "string \<times> string \<Rightarrow> AttributeParser \<Rightarrow> AttributeParser" where
  "addCommonAttribute mapping P = P\<lparr>commonAttributes := commonAttributes P @ [mapping]\<rparr>"

definition addModuleValueMapping :: "string \<Rightarrow> string \<Rightarrow> AttributeParser \<Rightarrow> AttributeParser" where
  "addModuleValueMapping moduleName optionName P =
     P\<lparr>moduleValueMappings := (moduleValueMappings P)(moduleName \<mapsto> optionName)\<rparr>"

definition getAttribute :: "attrs \<Rightarrow> string \<Rightarrow> string option" where
  "getAttribute as n = map_of as n"

definition hasAnimationAttributes :: "AttributeParser \<Rightarrow> attrs \<Rightarrow> bool" where
  "hasAnimationAttributes P as = (getAttribute as (attributeName (config P)) \<noteq> None)"

text \<open>The regular expression \<open>/^-?\d+(\.\d+)?$/\<close>.\<close>

definition matchesNumber :: "string \<Rightarrow> bool" where
  "matchesNumber s =
     (let u = (if s \<noteq> [] \<and> hd s = CHR ''-'' then tl s else s);
          ip = takeWhile isDigit u;
          r1 = dropWhile isDigit u
      in ip \<noteq> [] \<and>
         (r1 = [] \<or> (hd r1 = CHR ''.'' \<and> tl r1 \<noteq> [] \<and> list_all isDigit (tl r1))))"

definition bracketed :: "string \<Rightarrow> bool" where
  "bracketed s =
     ((startsWith s ''{'' \<and> endsWith s ''}'') \<or> (startsWith s ''['' \<and> endsWith s '']''))"

definition parseAttributeValue :: "host \<Rightarrow> string \<Rightarrow> val" where
  "parseAttributeValue H v =
     (if v = [] \<or> v = ''true'' then VBool True
      else if v = ''false'' then VBool False
      else if matchesNumber v then VNum (parseFloat v)
      else if bracketed v then
        (case JSON_parse H v of Some j \<Rightarrow> VJson j | None \<Rightarrow> VStr v)
      else VStr v)"

text \<open>\<open>str.replace(/-([a-z])/g, (_, letter) => letter.toUpperCase())\<close>.\<close>

fun camelCase :: "string \<Rightarrow> string" where
  "camelCase (a # b # r) =
     (if a = CHR ''-'' \<and> isLower b then toUpperCase b # camelCase r
      else a # camelCase (b # r))"
| "camelCase s = s"

definition parseModuleName :: "AttributeParser \<Rightarrow> attrs \<Rightarrow> string option" where
  "parseModuleName P as =
     (let moduleName = getAttribute as (attributeName (config P))
      in if moduleName = Some [] \<and> defaultAnimation (config P) \<noteq> None
            \<and> defaultAnimation (config P) \<noteq> Some []
         then defaultAnimation (config P)
         else moduleName)"

text \<open>The body of the loop over \<open>element.attributes\<close> in \<open>parseModuleOptions\<close>.\<close>

definition parseAttr :: "host \<Rightarrow> string \<Rightarrow> string \<Rightarrow> options \<Rightarrow> string \<times> string \<Rightarrow> options" where
  "parseAttr H an prefix opts a =
     (if startsWith (fst a) prefix then
        opts(camelCase (drop (length prefix + 1) (fst a)) \<mapsto> parseAttributeValue H (snd a))
      else if startsWith (fst a) (an @ ''-offset-'') then
        opts(camelCase (drop (length an + 1) (fst a)) \<mapsto> parseAttributeValue H (snd a))
      else if fst a = an @ ''-inview'' then
        opts(''inview'' \<mapsto> parseAttributeValue H (snd a))
      else opts)"

definition parseCommonAttribute :: "host \<Rightarrow> string \<Rightarrow> attrs \<Rightarrow> options \<Rightarrow> string \<times> string \<Rightarrow> options" where
  "parseCommonAttribute H an as opts mapping =
     (case getAttribute as (an @ ''-'' @ fst mapping) of
        None \<Rightarrow> opts
      | Some attrValue \<Rightarrow>
          if opts (snd mapping) = None
          then opts(snd mapping \<mapsto> parseAttributeValue H attrValue)
          else opts)"

definition parseCommonAttributes :: "host \<Rightarrow> AttributeParser \<Rightarrow> attrs \<Rightarrow> options \<Rightarrow> options" where
  "parseCommonAttributes H P as opts =
     foldl (parseCommonAttribute H (attributeName (config P)) as) opts (commonAttributes P)"

definition handleModuleValueMapping :: "AttributeParser \<Rightarrow> string \<Rightarrow> options \<Rightarrow> options" where
  "handleModuleValueMapping P moduleName opts =
     (case moduleValueMappings P moduleName of
        None \<Rightarrow> opts
      | Some targetProperty \<Rightarrow>
          if targetProperty \<noteq> [] \<and> opts ''value'' \<noteq> None \<and> opts targetProperty = None
          then (opts(targetProperty := opts ''value''))(''value'' := None)
          else opts)"

definition parseModuleOptions :: "host \<Rightarrow> AttributeParser \<Rightarrow> attrs \<Rightarrow> string \<Rightarrow> options" where
  "parseModuleOptions H P as moduleName =
     (let an = attributeName (config P);
          prefix = an @ ''-'' @ moduleName;
          opts = foldl (parseAttr H an prefix) Map.empty as
      in handleModuleValueMapping P moduleName (parseCommonAttributes H P as opts))"

definition parseElementOptions :: "host \<Rightarrow> AttributeParser \<Rightarrow> attrs \<Rightarrow> ParsedElementOptions option" where
  "parseElementOptions H P as =
     (case parseModuleName P as of
        None \<Rightarrow> None
      | Some moduleName \<Rightarrow>
          if moduleName = [] then None
          else Some \<lparr>module = moduleName, options = parseModuleOptions H P as moduleName\<rparr>)"

section \<open>The document, the window and the module instances\<close>

text \<open>
  An element is known by its identity. Of an \<open>HTMLElement\<close> the model keeps what the
  engine reads and writes: the attributes, the class list, five style properties (the
  empty string when unset; the host's validation of style text is not modelled), the
  bounding rectangle, and the \<open>transitionend\<close> listeners that \<open>FadeInAnimation.reset\<close>
  adds, each with the active class and the \<open>class\<close> option it captured.
\<close>

type_synonym elem = nat

record element =
  attributes :: attrs
  classList :: "string set"
  opacity :: string
  visibility :: string
  transition :: string
  transform :: string
  progress :: string
  rectTop :: real
  rectBottom :: real
  rectHeight :: real
  onTransitionEnd :: "(string \<times> val option) list"

datatype kind = Base | FadeIn | Parallax

datatype threshold = Single number | Several "real list"

record IntersectionObserverInit =
  rootMargin :: string
  threshold :: threshold

text \<open>An \<open>IntersectionObserver\<close>: the module whose \<open>handleIntersection\<close> is its callback,
  the options it was constructed with, and the elements it observes.\<close>

record observer =
  owner :: nat
  observerInit :: IntersectionObserverInit
  targets :: "elem list"

text \<open>
  One record for \<open>BaseAnimation\<close> and its two subclasses: \<open>pendingAnimations\<close> belongs to
  \<open>FadeInAnimation\<close>, the last four fields to \<open>ParallaxAnimation\<close>. The fields
  \<open>this.rootMargin\<close> and \<open>this.threshold\<close> are \<open>this_rootMargin\<close> and \<open>this_threshold\<close>.
\<close>

record animation =
  kind :: kind
  elements :: "elem list"
  observer :: "nat option"
  this_rootMargin :: string
  this_threshold :: "real list"
  attributeParser :: AttributeParser
  activeClass :: string
  observerOptions :: IntersectionObserverInit
  parsedOptions :: "elem \<rightharpoonup> options"
  pendingAnimations :: "(elem \<times> nat) list"
  scrollListenerAttached :: bool
  rafId :: "nat option"
  parallaxPositionStart :: real
  parallaxPositionEnd :: real

text \<open>
  A listener on \<open>window\<close>: the static \<open>BaseAnimation.handleResize\<close>, or a function made by
  \<open>this.handleScroll.bind(this)\<close>, which is a new function object at every call of
  \<open>bind\<close>: its first component is the identity of that object, the second the module.
\<close>

datatype listener = HandleResize | HandleScroll nat nat

text \<open>
  The callbacks passed to \<open>requestAnimationFrame\<close> and to \<open>window.setTimeout\<close>. The two
  callbacks of \<open>FadeInAnimation.animate\<close> carry what their closures captured: the module,
  the element, and then duration, easing, delay, final opacity and the \<open>class\<close> option
  for the first, final opacity and \<open>class\<close> option for the second. A timer is stored with
  its delay in milliseconds.
\<close>

datatype frame =
    ParallaxUpdate nat
  | FadeStart nat elem number val number val "val option"
  | FadeFinish nat elem val "val option"

datatype timer = PostInitRescan | DebounceRescan

record AnimationManager =
  modules :: "(string \<times> nat) list"
  initialized :: bool
  loadTimeout :: "nat option"
  mutationObserver :: bool
  mgr_attributeParser :: AttributeParser
  mgr_config :: AnimationConfig

text \<open>
  The state of the page: the elements, the document in tree order, the module objects and
  observers by identity, the listeners on \<open>window\<close>, the pending animation frames and
  timers, the viewport height and the static fields of \<open>BaseAnimation\<close>, the
  reduced-motion preference, and the manager. Console output is not modelled.
\<close>

record world =
  el :: "elem \<Rightarrow> element"
  document :: "elem list"
  instances :: "nat \<Rightarrow> animation"
  nextInstance :: nat
  observers :: "nat \<rightharpoonup> observer"
  nextObserver :: nat
  windowListeners :: "(string \<times> listener) list"
  nextFunction :: nat
  frames :: "nat \<rightharpoonup> frame"
  nextFrame :: nat
  timers :: "nat \<rightharpoonup> timer \<times> nat"
  nextTimer :: nat
  innerHeight :: real
  windowHeight :: real
  resizeListenerAttached :: bool
  prefersReducedMotion :: bool
  manager :: AnimationManager

datatype error = TypeError

text \<open>The outcome of a call that can throw: the exception, if any, and the state left.\<close>

type_synonym outcome = "error option \<times> world"

definition updInstance :: "nat \<Rightarrow> (animation \<Rightarrow> animation) \<Rightarrow> world \<Rightarrow> world" where
  "updInstance m f w = w\<lparr>instances := (instances w)(m := f (instances w m))\<rparr>"

definition updElement :: "elem \<Rightarrow> (element \<Rightarrow> element) \<Rightarrow> world \<Rightarrow> world" where
  "updElement e f w = w\<lparr>el := (el w)(e := f (el w e))\<rparr>"

definition requestAnimationFrame :: "frame \<Rightarrow> world \<Rightarrow> nat \<times> world" where
  "requestAnimationFrame cb w =
     (nextFrame w, w\<lparr>frames := (frames w)(nextFrame w \<mapsto> cb), nextFrame := Suc (nextFrame w)\<rparr>)"

definition cancelAnimationFrame :: "nat \<Rightarrow> world \<Rightarrow> world" where
  "cancelAnimationFrame i w = w\<lparr>frames := (frames w)(i := None)\<rparr>"



definition addEventListener :: "string \<Rightarrow> listener \<Rightarrow> world \<Rightarrow> world" where
  "addEventListener ty f w =
     (if (ty, f) \<in> set (windowListeners w) then w
      else w\<lparr>windowListeners := windowListeners w @ [(ty, f)]\<rparr>)"

definition removeEventListener :: "string \<Rightarrow> listener \<Rightarrow> world \<Rightarrow> world" where
  "removeEventListener ty f w =
     w\<lparr>windowListeners := filter (\<lambda>l. l \<noteq> (ty, f)) (windowListeners w)\<rparr>"

section \<open>BaseAnimation\<close>


definition updateWindowDimensions :: "world \<Rightarrow> world" where
  "updateWindowDimensions w = w\<lparr>windowHeight := innerHeight w\<rparr>"

definition ensureResizeListener :: "world \<Rightarrow> world" where
  "ensureResizeListener w =
     (if \<not> resizeListenerAttached w then
        (addEventListener ''resize'' HandleResize (updateWindowDimensions w))
          \<lparr>resizeListenerAttached := True\<rparr>
      else w)"

definition getElementOptions :: "host \<Rightarrow> nat \<Rightarrow> elem \<Rightarrow> world \<Rightarrow> options" where
  "getElementOptions H m e w =
     (case parseElementOptions H (attributeParser (instances w m)) (attributes (el w e)) of
        None \<Rightarrow> Map.empty
      | Some parsed \<Rightarrow> options parsed)"

text \<open>\<open>null\<close> is \<open>None\<close>.\<close>

definition parseInviewPercentage :: "string \<Rightarrow> number option" where
  "parseInviewPercentage v =
     (if v = [] then None
      else
        (let cleanValue = trim (removeFirst (CHR ''%'') v);
             percentage = parseFloat cleanValue
         in if percentage = NaN then None
            else
              (let thr = jdiv percentage 100
               in if jless thr (Finite 0) \<or> jless (Finite 1) thr then None else Some thr)))"

text \<open>\<open>String(options.offsetTop || '0px')\<close>.\<close>

definition offsetText :: "host \<Rightarrow> val option \<Rightarrow> string" where
  "offsetText H v =
     (case v of
        None \<Rightarrow> ''0px''
      | Some x \<Rightarrow> if truthy x then toString H x else ''0px'')"

text \<open>The options record that \<open>initObserver\<close> leaves in \<open>this.observerOptions\<close>, from the
  record held before and the options of the first element of the roster.\<close>

definition observerGeometry :: "host \<Rightarrow> IntersectionObserverInit \<Rightarrow> options \<Rightarrow> IntersectionObserverInit" where
  "observerGeometry H oo opts =
     (let margin = offsetText H (opts ''offsetTop'') @ '' '' @ offsetText H (opts ''offsetRight'')
                   @ '' '' @ offsetText H (opts ''offsetBottom'') @ '' ''
                   @ offsetText H (opts ''offsetLeft'');
          oo1 = oo\<lparr>rootMargin := margin\<rparr>
      in case opts ''inview'' of
           None \<Rightarrow> oo1
         | Some iv \<Rightarrow>
             if truthy iv then
               (case parseInviewPercentage (toString H iv) of
                  None \<Rightarrow> oo1
                | Some inviewPercentage \<Rightarrow> oo1\<lparr>threshold := Single inviewPercentage\<rparr>)
             else oo1)"

text \<open>The constructor of \<open>IntersectionObserver\<close> is taken to succeed: the host's check of
  the root margin text is not modelled.\<close>

definition initObserver :: "host \<Rightarrow> nat \<Rightarrow> world \<Rightarrow> world" where
  "initObserver H m w =
     (case elements (instances w m) of
        [] \<Rightarrow> w
      | e0 # _ \<Rightarrow>
          (let oo = observerGeometry H (observerOptions (instances w m)) (getElementOptions H m e0 w);
               oid = nextObserver w
           in (updInstance m (\<lambda>M. M\<lparr>observerOptions := oo, observer := Some oid\<rparr>) w)
                \<lparr>observers := (observers w)(oid \<mapsto> \<lparr>owner = m, observerInit = oo, targets = []\<rparr>),
                 nextObserver := Suc oid\<rparr>))"

text \<open>\<open>this.observer?.observe(element)\<close>.\<close>

definition observe :: "nat option \<Rightarrow> elem \<Rightarrow> world \<Rightarrow> world" where
  "observe obs e w =
     (case obs of
        None \<Rightarrow> w
      | Some oid \<Rightarrow>
          (case observers w oid of
             None \<Rightarrow> w
           | Some ob \<Rightarrow>
               w\<lparr>observers := (observers w)
                    (oid \<mapsto> ob\<lparr>targets := (if e \<in> set (targets ob) then targets ob
                                            else targets ob @ [e])\<rparr>)\<rparr>))"

text \<open>The body of the \<open>forEach\<close> in \<open>register\<close>.\<close>

definition registerElement :: "host \<Rightarrow> nat \<Rightarrow> world \<Rightarrow> elem \<Rightarrow> world" where
  "registerElement H m w e =
     (if hasAnimationAttributes (attributeParser (instances w m)) (attributes (el w e)) then
        (let opts = getElementOptions H m e w
         in observe (observer (instances w m)) e
              (updInstance m (\<lambda>M. M\<lparr>elements := elements M @ [e],
                                      parsedOptions := (parsedOptions M)(e \<mapsto> opts)\<rparr>) w))
      else w)"

text \<open>\<open>register\<close> takes one element or an array: a list here.\<close>

definition BaseAnimation_register :: "host \<Rightarrow> nat \<Rightarrow> elem list \<Rightarrow> world \<Rightarrow> world" where
  "BaseAnimation_register H m es w = foldl (registerElement H m) (initObserver H m w) es"

definition getOptions :: "host \<Rightarrow> nat \<Rightarrow> elem \<Rightarrow> world \<Rightarrow> options \<times> world" where
  "getOptions H m e w =
     (case parsedOptions (instances w m) e of
        Some opts \<Rightarrow> (opts, w)
      | None \<Rightarrow>
          (let opts = getElementOptions H m e w
           in (opts, updInstance m (\<lambda>M. M\<lparr>parsedOptions := (parsedOptions M)(e \<mapsto> opts)\<rparr>) w)))"

definition shouldRepeatAnimation :: "host \<Rightarrow> nat \<Rightarrow> elem \<Rightarrow> world \<Rightarrow> bool \<times> world" where
  "shouldRepeatAnimation H m e w =
     (case getOptions H m e w of (opts, w') \<Rightarrow> (truthy_opt (opts ''repeat''), w'))"

definition setProgress :: "host \<Rightarrow> elem \<Rightarrow> number \<Rightarrow> world \<Rightarrow> world" where
  "setProgress H e v w = updElement e (\<lambda>E. E\<lparr>progress := numberToString H v\<rparr>) w"

definition unobserve :: "nat \<Rightarrow> elem \<Rightarrow> world \<Rightarrow> world" where
  "unobserve oid e w =
     (case observers w oid of
        None \<Rightarrow> w
      | Some ob \<Rightarrow> w\<lparr>observers := (observers w)(oid \<mapsto> ob\<lparr>targets := removeAll e (targets ob)\<rparr>)\<rparr>)"

definition disconnect :: "nat \<Rightarrow> world \<Rightarrow> world" where
  "disconnect oid w =
     (case observers w oid of
        None \<Rightarrow> w
      | Some ob \<Rightarrow> w\<lparr>observers := (observers w)(oid \<mapsto> ob\<lparr>targets := []\<rparr>)\<rparr>)"

definition BaseAnimation_destroy :: "nat \<Rightarrow> world \<Rightarrow> world" where
  "BaseAnimation_destroy m w =
     (let w1 = (case observer (instances w m) of
                  None \<Rightarrow> w
                | Some oid \<Rightarrow>
                    updInstance m (\<lambda>M. M\<lparr>observer := None\<rparr>)
                      (disconnect oid (foldl (\<lambda>w' e. unobserve oid e w') w (elements (instances w m)))))
      in updInstance m (\<lambda>M. M\<lparr>elements := [], parsedOptions := Map.empty\<rparr>) w1)"


text \<open>The constructor of \<open>BaseAnimation\<close>, without a configuration: the field initialisers,
  among them \<open>observerOptions\<close> built from the initial \<open>rootMargin\<close> and \<open>threshold\<close>.\<close>

definition newBaseAnimation :: animation where
  "newBaseAnimation =
     \<lparr>kind = Base, elements = [], observer = None, this_rootMargin = ''0px'',
      this_threshold = [0, 0.25, 0.5, 0.75, 1], attributeParser = newAttributeParser,
      activeClass = ''is-animated'',
      observerOptions = \<lparr>rootMargin = ''0px'', threshold = Several [0, 0.25, 0.5, 0.75, 1]\<rparr>,
      parsedOptions = Map.empty, pendingAnimations = [],
      scrollListenerAttached = False, rafId = None,
      parallaxPositionStart = - 0.5, parallaxPositionEnd = 1\<rparr>"

text \<open>\<open>a || b\<close> on an option that may be absent.\<close>

definition orDefault :: "val option \<Rightarrow> val \<Rightarrow> val" where
  "orDefault v d = (case v of None \<Rightarrow> d | Some x \<Rightarrow> if truthy x then x else d)"

text \<open>The class that \<open>if (options.class) element.classList.add(options.class)\<close> adds or
  removes, as a set: empty when the option is absent or falsy.\<close>

definition classOption :: "host \<Rightarrow> val option \<Rightarrow> string set" where
  "classOption H c =
     (case c of None \<Rightarrow> {} | Some x \<Rightarrow> if truthy x then {toString H x} else {})"

section \<open>ParallaxAnimation\<close>

definition newParallaxAnimation :: animation where
  "newParallaxAnimation =
     newBaseAnimation\<lparr>kind := Parallax, activeClass := ''is-parallaxed'',
                      this_threshold := [0, 0.1],
                      this_rootMargin := ''100px 0px -100px 0px''\<rparr>"


text \<open>\<open>speed * windowHeight * startPosition + progress * speed * windowHeight * endPosition\<close>.\<close>

definition parallaxPosition :: "number \<Rightarrow> number \<Rightarrow> number \<Rightarrow> number \<Rightarrow> number \<Rightarrow> number" where
  "parallaxPosition speed wh startPosition endPosition prog =
     jadd (jmul (jmul speed wh) startPosition)
          (jmul (jmul (jmul prog speed) wh) endPosition)"

text \<open>The parameters that \<open>applyParallaxEffect\<close> reads from the options, with the
  defaults of the module (\<open>ps\<close> and \<open>pe\<close> are \<open>parallaxPositionStart\<close> and
  \<open>parallaxPositionEnd\<close>).\<close>

definition parallaxDirection :: "options \<Rightarrow> val" where
  "parallaxDirection opts = orDefault (opts ''direction'') (VStr ''down'')"

definition parallaxYPos :: "host \<Rightarrow> options \<Rightarrow> real \<Rightarrow> real \<Rightarrow> real \<Rightarrow> number \<Rightarrow> number" where
  "parallaxYPos H opts ps pe wh prog =
     (let speed = (case opts ''speed'' of None \<Rightarrow> Finite 0.2 | Some v \<Rightarrow> toNumber H v);
          startPosition = (case opts ''start'' of None \<Rightarrow> Finite ps | Some v \<Rightarrow> toNumber H v);
          endPosition = (case opts ''end'' of None \<Rightarrow> Finite pe | Some v \<Rightarrow> toNumber H v)
      in parallaxPosition speed (Finite wh) startPosition endPosition prog)"

text \<open>The number that the transform carries: \<open>yPos * multiplier\<close>, or \<open>xPos * multiplier\<close>
  for a horizontal direction.\<close>

definition parallaxOffset :: "host \<Rightarrow> options \<Rightarrow> real \<Rightarrow> real \<Rightarrow> real \<Rightarrow> number \<Rightarrow> number" where
  "parallaxOffset H opts ps pe wh prog =
     (let direction = parallaxDirection opts;
          pos = parallaxYPos H opts ps pe wh prog
      in if direction = VStr ''up'' \<or> direction = VStr ''down''
         then jmul pos (Finite (if direction = VStr ''up'' then - 1 else 1))
         else jmul pos (Finite (if direction = VStr ''left'' then - 1 else 1)))"

definition parallaxTransform :: "host \<Rightarrow> options \<Rightarrow> real \<Rightarrow> real \<Rightarrow> real \<Rightarrow> number \<Rightarrow> string" where
  "parallaxTransform H opts ps pe wh prog =
     (let direction = parallaxDirection opts;
          px = numberToString H (parallaxOffset H opts ps pe wh prog)
      in if direction = VStr ''up'' \<or> direction = VStr ''down''
         then ''translate3d(0, '' @ px @ ''px, 0)''
         else ''translate3d('' @ px @ ''px, 0, 0)'')"

definition applyParallaxEffect :: "host \<Rightarrow> nat \<Rightarrow> elem \<Rightarrow> number \<Rightarrow> world \<Rightarrow> world" where
  "applyParallaxEffect H m e prog w =
     (case getOptions H m e w of
        (opts, w1) \<Rightarrow>
          (let M = instances w1 m;
               tr = parallaxTransform H opts (parallaxPositionStart M) (parallaxPositionEnd M)
                      (windowHeight w1) prog
           in updElement e
                (\<lambda>E. E\<lparr>transform := tr,
                        classList := insert (activeClass M)
                                       (classOption H (opts ''class'') \<union> classList E)\<rparr>) w1))"

text \<open>\<open>Math.min(Math.max(distanceTraveled / totalDistance, 0), 1)\<close>.\<close>

definition traversalProgress :: "real \<Rightarrow> real \<Rightarrow> real \<Rightarrow> number" where
  "traversalProgress viewportHeight rtop rheight =
     Math_min (Math_max (jdivFinite (viewportHeight - rtop) (viewportHeight + rheight)) (Finite 0))
              (Finite 1)"

definition updateParallaxElement :: "host \<Rightarrow> nat \<Rightarrow> real \<Rightarrow> world \<Rightarrow> elem \<Rightarrow> world" where
  "updateParallaxElement H m viewportHeight w e =
     (let E = el w e
      in if - 100 \<le> rectBottom E \<and> rectTop E \<le> viewportHeight + 100 then
           (let prog = traversalProgress viewportHeight (rectTop E) (rectHeight E)
            in applyParallaxEffect H m e prog (setProgress H e prog w))
         else w)"

definition updateParallaxElements :: "host \<Rightarrow> nat \<Rightarrow> world \<Rightarrow> world" where
  "updateParallaxElements H m w =
     foldl (updateParallaxElement H m (windowHeight w)) w (elements (instances w m))"


definition ParallaxAnimation_register :: "host \<Rightarrow> nat \<Rightarrow> elem list \<Rightarrow> world \<Rightarrow> world" where
  "ParallaxAnimation_register H m es w =
     (let w1 = BaseAnimation_register H m es w
      in if \<not> scrollListenerAttached (instances w1 m) then
           (let f = nextFunction w1;
                w2 = addEventListener ''scroll'' (HandleScroll f m) (w1\<lparr>nextFunction := Suc f\<rparr>);
                w3 = updInstance m (\<lambda>M. M\<lparr>scrollListenerAttached := True\<rparr>) w2
            in updateParallaxElements H m w3)
         else w1)"

definition handleScroll :: "nat \<Rightarrow> world \<Rightarrow> world" where
  "handleScroll m w =
     (let w1 = (case rafId (instances w m) of
                  None \<Rightarrow> w
                | Some r \<Rightarrow> cancelAnimationFrame r w)
      in case requestAnimationFrame (ParallaxUpdate m) w1 of
           (r, w2) \<Rightarrow> updInstance m (\<lambda>M. M\<lparr>rafId := Some r\<rparr>) w2)"

definition ParallaxAnimation_animate :: "host \<Rightarrow> nat \<Rightarrow> elem \<Rightarrow> options \<Rightarrow> world \<Rightarrow> world" where
  "ParallaxAnimation_animate H m e opts w =
     updElement e
       (\<lambda>E. E\<lparr>classList := classOption H (opts ''class'')
                              \<union> insert (activeClass (instances w m)) (classList E)\<rparr>) w"

definition ParallaxAnimation_reset :: "host \<Rightarrow> nat \<Rightarrow> elem \<Rightarrow> options \<Rightarrow> world \<Rightarrow> world" where
  "ParallaxAnimation_reset H m e opts w =
     (case shouldRepeatAnimation H m e w of
        (rep, w1) \<Rightarrow>
          if rep then
            updElement e
              (\<lambda>E. E\<lparr>transform := ''translate3d(0, 0, 0)'',
                      classList := (classList E - {activeClass (instances w1 m)})
                                   - classOption H (opts ''class'')\<rparr>) w1
          else w1)"

definition ParallaxAnimation_destroy :: "nat \<Rightarrow> world \<Rightarrow> world" where
  "ParallaxAnimation_destroy m w =
     (let w1 = BaseAnimation_destroy m w;
          w2 = (if scrollListenerAttached (instances w1 m) then
                  (let f = nextFunction w1
                   in updInstance m (\<lambda>M. M\<lparr>scrollListenerAttached := False\<rparr>)
                        (removeEventListener ''scroll'' (HandleScroll f m)
                           (w1\<lparr>nextFunction := Suc f\<rparr>)))
                else w1)
      in case rafId (instances w2 m) of
           None \<Rightarrow> w2
         | Some r \<Rightarrow> updInstance m (\<lambda>M. M\<lparr>rafId := None\<rparr>) (cancelAnimationFrame r w2))"

section \<open>FadeInAnimation\<close>

text \<open>\<open>pendingAnimations\<close> is kept as an association list, in the insertion order of the
  \<open>Map\<close>.\<close>

definition newFadeInAnimation :: animation where
  "newFadeInAnimation =
     newBaseAnimation\<lparr>kind := FadeIn, activeClass := ''is-animated'',
                      this_rootMargin := ''0px 0px -10% 0px'',
                      this_threshold := [0, 0.1, 0.2, 0.3, 0.4, 0.5, 0.6, 0.7, 0.8, 0.9, 1]\<rparr>"

definition initElement :: "host \<Rightarrow> nat \<Rightarrow> world \<Rightarrow> elem \<Rightarrow> world" where
  "initElement H m w e =
     (if opacity (el w e) \<noteq> ''0'' \<and> activeClass (instances w m) \<notin> classList (el w e) then
        (case getOptions H m e w of
           (opts, w1) \<Rightarrow>
             (let fromOpacity = (case opts ''from'' of None \<Rightarrow> VNum (Finite 0) | Some v \<Rightarrow> v)
              in updElement e
                   (\<lambda>E. E\<lparr>opacity := toString H fromOpacity, visibility := ''visible''\<rparr>) w1))
      else w)"

text \<open>\<open>parseTimeValue\<close>: on a value that is neither \<open>undefined\<close>, a number nor a string,
  \<open>value.endsWith\<close> is not a function and the call throws.\<close>

definition parseTimeValue :: "val option \<Rightarrow> error + number" where
  "parseTimeValue v =
     (case v of
        None \<Rightarrow> Inr (Finite 500)
      | Some (VNum n) \<Rightarrow> Inr n
      | Some (VStr s) \<Rightarrow>
          if endsWith s ''s'' then Inr (jmul (parseFloat s) (Finite 1000))
          else Inr (parseFloat s)
      | Some (VBool _) \<Rightarrow> Inl TypeError
      | Some (VJson _) \<Rightarrow> Inl TypeError)"


definition FadeInAnimation_animate :: "host \<Rightarrow> nat \<Rightarrow> elem \<Rightarrow> options \<Rightarrow> world \<Rightarrow> outcome" where
  "FadeInAnimation_animate H m e opts w =
     (if activeClass (instances w m) \<notin> classList (el w e)
         \<and> map_of (pendingAnimations (instances w m)) e = None then
        (case parseTimeValue (Some (orDefault (opts ''duration'') (VStr ''0.5s''))) of
           Inl err \<Rightarrow> (Some err, w)
         | Inr duration \<Rightarrow>
             (case parseTimeValue (Some (orDefault (opts ''delay'') (VStr ''0s''))) of
                Inl err \<Rightarrow> (Some err, w)
              | Inr delay \<Rightarrow>
                  (let easing = orDefault (opts ''easing'') (VStr ''ease'');
                       toOpacity = (case opts ''to'' of None \<Rightarrow> VNum (Finite 1) | Some v \<Rightarrow> v);
                       w1 = initElement H m w e
                   in case requestAnimationFrame
                             (FadeStart m e duration easing delay toOpacity (opts ''class'')) w1 of
                        (r, w2) \<Rightarrow>
                          (None, updInstance m
                                   (\<lambda>M. M\<lparr>pendingAnimations :=
                                             AList.update e r (pendingAnimations M)\<rparr>) w2))))
      else (None, w))"

definition FadeInAnimation_reset :: "host \<Rightarrow> nat \<Rightarrow> elem \<Rightarrow> options \<Rightarrow> world \<Rightarrow> outcome" where
  "FadeInAnimation_reset H m e opts w =
     (let w1 = (case map_of (pendingAnimations (instances w m)) e of
                  None \<Rightarrow> w
                | Some r \<Rightarrow>
                    updInstance m
                      (\<lambda>M. M\<lparr>pendingAnimations := AList.delete e (pendingAnimations M)\<rparr>)
                      (cancelAnimationFrame r w))
      in case shouldRepeatAnimation H m e w1 of
           (rep, w2) \<Rightarrow>
             if rep then
               (let fromOpacity = (case opts ''from'' of None \<Rightarrow> VNum (Finite 0) | Some v \<Rightarrow> v)
                in case parseTimeValue (Some (orDefault (opts ''duration'') (VStr ''0.5s''))) of
                     Inl err \<Rightarrow> (Some err, w2)
                   | Inr duration \<Rightarrow>
                       (let easing = orDefault (opts ''easing'') (VStr ''ease'')
                        in (None,
                            updElement e
                              (\<lambda>E. E\<lparr>transition := ''opacity '' @ numberToString H (jdiv duration 1000)
                                                      @ ''s '' @ toString H easing,
                                      opacity := toString H fromOpacity,
                                      onTransitionEnd := onTransitionEnd E
                                        @ [(activeClass (instances w2 m), opts ''class'')]\<rparr>) w2)))
             else (None, w2))"



section \<open>Dispatch on the class of a module, frames and intersection events\<close>


definition animate :: "host \<Rightarrow> nat \<Rightarrow> elem \<Rightarrow> options \<Rightarrow> world \<Rightarrow> outcome" where
  "animate H m e opts w =
     (case kind (instances w m) of
        Base \<Rightarrow> (None, w)
      | FadeIn \<Rightarrow> FadeInAnimation_animate H m e opts w
      | Parallax \<Rightarrow> (None, ParallaxAnimation_animate H m e opts w))"

definition reset :: "host \<Rightarrow> nat \<Rightarrow> elem \<Rightarrow> options \<Rightarrow> world \<Rightarrow> outcome" where
  "reset H m e opts w =
     (case kind (instances w m) of
        Base \<Rightarrow> (None, w)
      | FadeIn \<Rightarrow> FadeInAnimation_reset H m e opts w
      | Parallax \<Rightarrow> (None, ParallaxAnimation_reset H m e opts w))"



text \<open>The browser runs a pending animation frame callback.\<close>

definition runFrame :: "host \<Rightarrow> nat \<Rightarrow> world \<Rightarrow> world" where
  "runFrame H i w =
     (case frames w i of
        None \<Rightarrow> w
      | Some cb \<Rightarrow>
          (let w0 = w\<lparr>frames := (frames w)(i := None)\<rparr>
           in case cb of
                ParallaxUpdate m \<Rightarrow>
                  updInstance m (\<lambda>M. M\<lparr>rafId := None\<rparr>) (updateParallaxElements H m w0)
              | FadeStart m e duration easing delay toOpacity cls \<Rightarrow>
                  snd (requestAnimationFrame (FadeFinish m e toOpacity cls)
                         (updElement e
                            (\<lambda>E. E\<lparr>transition :=
                                      ''opacity '' @ numberToString H (jdiv duration 1000) @ ''s ''
                                      @ toString H easing @ '' ''
                                      @ numberToString H (jdiv delay 1000) @ ''s''\<rparr>) w0))
              | FadeFinish m e toOpacity cls \<Rightarrow>
                  updInstance m
                    (\<lambda>M. M\<lparr>pendingAnimations := AList.delete e (pendingAnimations M)\<rparr>)
                    (updElement e
                       (\<lambda>E. E\<lparr>opacity := toString H toOpacity,
                               classList := insert (activeClass (instances w0 m))
                                              (classOption H cls \<union> classList E)\<rparr>) w0)))"

record IntersectionObserverEntry =
  target :: elem
  isIntersecting :: bool
  intersectionRatio :: number

definition handleEntry :: "host \<Rightarrow> nat \<Rightarrow> IntersectionObserverEntry \<Rightarrow> world \<Rightarrow> outcome" where
  "handleEntry H m entry w =
     (let e = target entry;
          opts = (case parsedOptions (instances w m) e of None \<Rightarrow> Map.empty | Some x \<Rightarrow> x)
      in if isIntersecting entry
         then animate H m e opts (setProgress H e (intersectionRatio entry) w)
         else reset H m e opts (setProgress H e (Finite 0) w))"

text \<open>\<open>entries.forEach\<close>: an exception ends the loop.\<close>

fun handleIntersection :: "host \<Rightarrow> nat \<Rightarrow> IntersectionObserverEntry list \<Rightarrow> world \<Rightarrow> outcome" where
  "handleIntersection H m [] w = (None, w)"
| "handleIntersection H m (entry # entries) w =
     (case handleEntry H m entry w of
        (Some err, w') \<Rightarrow> (Some err, w')
      | (None, w') \<Rightarrow> handleIntersection H m entries w')"

section \<open>AnimationManager\<close>

text \<open>\<open>new AnimationManager()\<close>, without a configuration.\<close>

definition newAnimationManager :: AnimationManager where
  "newAnimationManager =
     \<lparr>modules = [], initialized = False, loadTimeout = None, mutationObserver = False,
      mgr_attributeParser = newAttributeParser, mgr_config = DEFAULT_CONFIG\<rparr>"

text \<open>\<open>new ModuleClass()\<close>: the field initialisers of the class, then
  \<open>ensureResizeListener\<close> of the base constructor.\<close>

definition newAnimation :: "kind \<Rightarrow> world \<Rightarrow> nat \<times> world" where
  "newAnimation k w =
     (let m = nextInstance w;
          M = (case k of Base \<Rightarrow> newBaseAnimation
                       | FadeIn \<Rightarrow> newFadeInAnimation
                       | Parallax \<Rightarrow> newParallaxAnimation)
      in (m, ensureResizeListener (w\<lparr>instances := (instances w)(m := M), nextInstance := Suc m\<rparr>)))"




definition updateConfig :: "PartialConfig \<Rightarrow> nat \<Rightarrow> world \<Rightarrow> world" where
  "updateConfig p m w = updInstance m (\<lambda>M. M\<lparr>attributeParser := setConfig p (attributeParser M)\<rparr>) w"

definition AnimationManager_updateConfig :: "PartialConfig \<Rightarrow> world \<Rightarrow> world" where
  "AnimationManager_updateConfig p w =
     (let P = setConfig p (mgr_attributeParser (manager w));
          w1 = w\<lparr>manager := (manager w)\<lparr>mgr_attributeParser := P, mgr_config := config P\<rparr>\<rparr>
      in foldl (\<lambda>w' q. updateConfig p (snd q) w') w1 (modules (manager w1)))"












text \<open>The methods that the class \<open>AnimationManager\<close> declares, in the order of the source,
  with their visibility.\<close>

datatype visibility = Public | Private

definition AnimationManager_methods :: "(string \<times> visibility) list" where
  "AnimationManager_methods =
     [(''use'', Public), (''updateConfig'', Public), (''registerModule'', Public),
      (''getModule'', Public), (''initDynamicElements'', Private),
      (''findAllAnimationElements'', Private), (''isElementInitialized'', Private),
      (''setupMutationObserver'', Private), (''init'', Public), (''destroy'', Public)]"

section \<open>Notions used to state the properties\<close>



text \<open>The option name that the loop of \<open>parseModuleOptions\<close> assigns for an attribute of
  the given name, if it assigns one.\<close>

definition loopOptionName :: "string \<Rightarrow> string \<Rightarrow> string \<Rightarrow> string option" where
  "loopOptionName an prefix name =
     (if startsWith name prefix then Some (camelCase (drop (length prefix + 1) name))
      else if startsWith name (an @ ''-offset-'') then Some (camelCase (drop (length an + 1) name))
      else if name = an @ ''-inview'' then Some ''inview''
      else None)"

text \<open>
  A host for the examples. Its \<open>JSON.parse\<close> knows one text; it prints a finite number in
  decimal, cut after three decimals (which is the text JavaScript prints for the numbers
  of the examples); and it converts a string to a number when the string, trimmed, is
  empty or matches the signed decimal pattern.
\<close>

function natToString :: "nat \<Rightarrow> string" where
  "natToString n =
     (if n < 10 then [''0123456789'' ! n]
      else natToString (n div 10) @ [''0123456789'' ! (n mod 10)])"
  by pat_completeness auto
termination
  by (relation "measure id") auto

definition decimalText :: "real \<Rightarrow> string" where
  "decimalText r =
     (let a = \<bar>r\<bar>;
          ip = nat \<lfloor>a\<rfloor>;
          fr = nat \<lfloor>(a - of_int \<lfloor>a\<rfloor>) * 1000\<rfloor>;
          ds = natToString (1000 + fr);
          frac = rev (dropWhile (\<lambda>c. c = CHR ''0'') (rev (tl ds)))
      in (if r < 0 then ''-'' else []) @ natToString ip
         @ (if frac = [] then [] else ''.'' @ frac))"

definition exampleHost :: host where
  "exampleHost =
     \<lparr>JSON_parse = (\<lambda>s. if s = ''[1]'' then Some (JArr [JNum (Finite 1)]) else None),
      formatFinite = decimalText,
      StringToNumber = (\<lambda>s. if trim s = [] then Finite 0
                              else if matchesNumber (trim s) then parseFloat (trim s)
                              else NaN)\<rparr>"

text \<open>The attributes of \<open><div kw="parallax" kw-speed="0.5" kw-direction="up">\<close>.\<close>

definition parallaxExample :: attrs where
  "parallaxExample = [(''kw'', ''parallax''), (''kw-speed'', ''0.5''), (''kw-direction'', ''up'')]"

text \<open>An element with the given attributes and nothing else set, and a page before any
  script has run: no element, no module, a viewport 800 pixels high.\<close>

definition newElement :: "attrs \<Rightarrow> element" where
  "newElement as =
     \<lparr>attributes = as, classList = {}, opacity = [], visibility = [], transition = [],
      transform = [], progress = [], rectTop = 0, rectBottom = 0, rectHeight = 0,
      onTransitionEnd = []\<rparr>"

definition emptyPage :: world where
  "emptyPage =
     \<lparr>el = (\<lambda>e. newElement []), document = [], instances = (\<lambda>m. newBaseAnimation),
      nextInstance = 0, observers = Map.empty, nextObserver = 0, windowListeners = [],
      nextFunction = 0, frames = Map.empty, nextFrame = 0, timers = Map.empty, nextTimer = 0,
      innerHeight = 800, windowHeight = 800, resizeListenerAttached = False,
      prefersReducedMotion = False, manager = newAnimationManager\<rparr>"

text \<open>A page of four elements: three \<open>fade-in\<close> elements with different offset and inview
  attributes, and one element without the primary attribute.\<close>

definition examplePage :: world where
  "examplePage =
     emptyPage
       \<lparr>el := (\<lambda>e. newElement
                 (if e = 0 then [(''kw'', ''fade-in''), (''kw-offset-top'', ''10px''),
                                 (''kw-inview'', ''50%'')]
                  else if e = 1 then [(''kw'', ''fade-in''), (''kw-offset-top'', ''20px'')]
                  else if e = 2 then [(''kw'', ''fade-in'')]
                  else [(''id'', ''main'')])),
        document := [0, 1, 2, 3]\<rparr>"

text \<open>Every function object made by \<open>bind\<close> that is a listener on \<open>window\<close> was made
  earlier: its identity is below the next one to be handed out.\<close>

definition boundFunctionsAllocated :: "world \<Rightarrow> bool" where
  "boundFunctionsAllocated w =
     list_all (\<lambda>l. case snd l of HandleResize \<Rightarrow> True | HandleScroll f m \<Rightarrow> f < nextFunction w)
       (windowListeners w)"

text \<open>A page with the parallax element of the example, 200 pixels high in the middle of
  the viewport.\<close>

definition parallaxPage :: world where
  "parallaxPage =
     emptyPage
       \<lparr>el := (\<lambda>e. if e = 0
                    then (newElement parallaxExample)
                           \<lparr>rectTop := 300, rectBottom := 500, rectHeight := 200\<rparr>
                    else newElement []),
        document := [0]\<rparr>"






section \<open>Value coercion\<close>

lemma matchesNumber_hd:
  assumes "matchesNumber v"
  shows "v \<noteq> [] \<and> (hd v = CHR ''-'' \<or> isDigit (hd v))"
proof -
  let ?u = "if v \<noteq> [] \<and> hd v = CHR ''-'' then tl v else v"
  from assms have ip: "takeWhile isDigit ?u \<noteq> []"
    by (simp add: matchesNumber_def Let_def)
  then have "?u \<noteq> []" by auto
  then have vne: "v \<noteq> []" by (auto split: if_splits)
  show ?thesis
  proof (cases "hd v = CHR ''-''")
    case True with vne show ?thesis by simp
  next
    case False
    with ip have "takeWhile isDigit v \<noteq> []" by simp
    with vne have "isDigit (hd v)" by (cases v) (auto split: if_splits)
    with vne show ?thesis by simp
  qed
qed





lemma parseUnsigned_digit:
  assumes "takeWhile isDigit u \<noteq> []"
  shows "\<exists>r. parseUnsigned u = Finite r"
proof -
  from assms obtain c r where u: "u = c # r" and d: "isDigit c"
    by (cases u) (auto split: if_splits)
  then have "\<not> startsWith u ''Infinity''"
    by (auto simp: startsWith_def isDigit_def)
  with assms show ?thesis
    by (simp add: parseUnsigned_def Let_def)
qed

lemma parseFloat_matchesNumber:
  assumes "matchesNumber v"
  shows "\<exists>r. parseFloat v = Finite r"
proof -
  from matchesNumber_hd[OF assms] obtain c r where v: "v = c # r"
    and c: "c = CHR ''-'' \<or> isDigit c" by (cases v) auto
  then have nws: "\<not> isWhiteSpace c" by (auto simp: isWhiteSpace_def isDigit_def)
  show ?thesis
  proof (cases "c = CHR ''-''")
    case True
    with assms v have "takeWhile isDigit r \<noteq> []" by (simp add: matchesNumber_def Let_def)
    from parseUnsigned_digit[OF this] obtain x where "parseUnsigned r = Finite x" ..
    with v True nws show ?thesis by (simp add: parseFloat_def)
  next
    case False
    with c have d: "isDigit c" by simp
    then have "c \<noteq> CHR ''+''" by (auto simp: isDigit_def)
    moreover from d v have "takeWhile isDigit v \<noteq> []" by simp
    from parseUnsigned_digit[OF this] obtain x where "parseUnsigned v = Finite x" ..
    ultimately show ?thesis using v False nws by (simp add: parseFloat_def)
  qed
qed









lemmas parse_eval =
  parseAttributeValue_def matchesNumber_def bracketed_def isDigit_def isLower_def
  isWhiteSpace_def toUpperCase_def parseFloat_def parseUnsigned_def startsWith_def
  endsWith_def digitsValue_def scale10_def exponentPart_def



section \<open>Option precedence\<close>










lemmas parser_eval =
  parseModuleOptions_def newAttributeParser_def DEFAULT_CONFIG_def parseAttr_def
  parseCommonAttributes_def parseCommonAttribute_def handleModuleValueMapping_def
  getAttribute_def loopOptionName_def parse_eval



section \<open>The parallax offset\<close>

lemma parallaxExample_module:
  "parseElementOptions H newAttributeParser parallaxExample
   = Some \<lparr>module = ''parallax'',
            options = parseModuleOptions H newAttributeParser parallaxExample ''parallax''\<rparr>"
  by (simp add: parseElementOptions_def parseModuleName_def parallaxExample_def
        newAttributeParser_def DEFAULT_CONFIG_def getAttribute_def)



text \<open>The progress that \<open>updateParallaxElements\<close> passes on is a number from 0 to 1, or
  \<open>NaN\<close> when viewport and element both have height 0.\<close>

lemma traversalProgress_range:
  "traversalProgress vh t h = NaN
   \<or> (\<exists>p. traversalProgress vh t h = Finite p \<and> 0 \<le> p \<and> p \<le> 1)"
  by (auto simp: traversalProgress_def Math_min_def Math_max_def jdivFinite_def)




section \<open>Registration and the intersection observer\<close>


lemma getElementOptions_cong:
  "attributeParser (instances w' m) = attributeParser (instances w m) \<Longrightarrow>
   attributes (el w' e) = attributes (el w e) \<Longrightarrow>
   getElementOptions H m e w' = getElementOptions H m e w"
  by (simp add: getElementOptions_def)

lemma foldl_map_upd_lookup:
  "foldl (\<lambda>P x. P(x \<mapsto> g x)) P0 xs e = (if e \<in> set xs then Some (g e) else P0 e)"
  by (induction xs arbitrary: P0) auto


lemma foldl_registerElement_unobserved:
  assumes "observer (instances w m) = None"
  shows "foldl (registerElement H m) w es =
         updInstance m
           (\<lambda>M. M\<lparr>elements := elements M
                      @ filter (\<lambda>e. hasAnimationAttributes (attributeParser (instances w m))
                                       (attributes (el w e))) es,
                   parsedOptions :=
                     (\<lambda>a. if a \<in> set es \<and> hasAnimationAttributes (attributeParser (instances w m))
                                               (attributes (el w a))
                          then Some (getElementOptions H m a w) else parsedOptions M a)\<rparr>) w"
proof (induction es rule: rev_induct)
  case Nil
  show ?case by (simp add: updInstance_def)
next
  case (snoc e es)
  show ?case
    apply (simp only: foldl_append foldl.simps snoc)
    using assms
    apply (auto simp add: registerElement_def updInstance_def observe_def Let_def getElementOptions_def fun_eq_iff)
    done
qed

lemma foldl_registerElement_observed:
  assumes "observer (instances w m) = Some oid" and "observers w oid = Some ob"
  shows "foldl (registerElement H m) w es =
         (updInstance m
           (\<lambda>M. M\<lparr>elements := elements M
                      @ filter (\<lambda>e. hasAnimationAttributes (attributeParser (instances w m))
                                       (attributes (el w e))) es,
                   parsedOptions :=
                     (\<lambda>a. if a \<in> set es \<and> hasAnimationAttributes (attributeParser (instances w m))
                                               (attributes (el w a))
                          then Some (getElementOptions H m a w) else parsedOptions M a)\<rparr>) w)
         \<lparr>observers := (observers w)
            (oid \<mapsto> ob\<lparr>targets := foldl (\<lambda>ts e. if e \<in> set ts then ts else ts @ [e]) (targets ob)
                 (filter (\<lambda>e. hasAnimationAttributes (attributeParser (instances w m))
                                       (attributes (el w e))) es)\<rparr>)\<rparr>"
proof (induction es rule: rev_induct)
  case Nil
  show ?case using assms by (simp add: updInstance_def map_upd_triv)
next
  case (snoc e es)
  show ?case
    apply (simp only: foldl_append foldl.simps snoc)
    using assms
    apply (auto simp add: registerElement_def updInstance_def observe_def Let_def getElementOptions_def fun_eq_iff)
    done
qed



lemma BaseAnimation_register_first:
  assumes "elements (instances w m) = []" and "observer (instances w m) = None"
  shows "BaseAnimation_register H m es w =
         updInstance m
           (\<lambda>M. M\<lparr>elements := elements M
                      @ filter (\<lambda>e. hasAnimationAttributes (attributeParser (instances w m))
                                       (attributes (el w e))) es,
                   parsedOptions :=
                     (\<lambda>a. if a \<in> set es \<and> hasAnimationAttributes (attributeParser (instances w m))
                                               (attributes (el w a))
                          then Some (getElementOptions H m a w) else parsedOptions M a)\<rparr>) w"
  using assms
  by (simp add: BaseAnimation_register_def initObserver_def foldl_registerElement_unobserved)

lemma BaseAnimation_register_later:
  assumes "elements (instances w m) = e0 # rest"
  shows "BaseAnimation_register H m es w =
         (updInstance m
           (\<lambda>M. M\<lparr>observerOptions := observerGeometry H (observerOptions (instances w m))
                                        (getElementOptions H m e0 w),
                   observer := Some (nextObserver w),
                   elements := elements M
                      @ filter (\<lambda>e. hasAnimationAttributes (attributeParser (instances w m))
                                       (attributes (el w e))) es,
                   parsedOptions :=
                     (\<lambda>a. if a \<in> set es \<and> hasAnimationAttributes (attributeParser (instances w m))
                                               (attributes (el w a))
                          then Some (getElementOptions H m a w) else parsedOptions M a)\<rparr>) w)
         \<lparr>observers := (observers w)
            (nextObserver w \<mapsto>
               \<lparr>owner = m,
                observerInit = observerGeometry H (observerOptions (instances w m))
                                 (getElementOptions H m e0 w),
                targets = foldl (\<lambda>ts e. if e \<in> set ts then ts else ts @ [e]) []
                 (filter (\<lambda>e. hasAnimationAttributes (attributeParser (instances w m))
                                       (attributes (el w e))) es)\<rparr>),
           nextObserver := Suc (nextObserver w)\<rparr>"
proof -
  let ?oo = "observerGeometry H (observerOptions (instances w m)) (getElementOptions H m e0 w)"
  let ?ob = "\<lparr>owner = m, observerInit = ?oo, targets = []\<rparr>"
  let ?w1 = "initObserver H m w"
  have w1: "?w1 = (updInstance m (\<lambda>M. M\<lparr>observerOptions := ?oo, observer := Some (nextObserver w)\<rparr>) w)
                \<lparr>observers := (observers w)(nextObserver w \<mapsto> ?ob),
                 nextObserver := Suc (nextObserver w)\<rparr>"
    using assms by (simp add: initObserver_def Let_def)
  have o1: "observer (instances ?w1 m) = Some (nextObserver w)"
    by (simp add: w1 updInstance_def)
  have o2: "observers ?w1 (nextObserver w) = Some ?ob"
    by (simp add: w1 updInstance_def)
  have r: "BaseAnimation_register H m es w = foldl (registerElement H m) ?w1 es"
    by (simp add: BaseAnimation_register_def)
  have g: "\<And>a. getElementOptions H m a ?w1 = getElementOptions H m a w"
    by (rule getElementOptions_cong) (simp_all add: w1 updInstance_def)
  show ?thesis
    unfolding r foldl_registerElement_observed[OF o1 o2, of H es] g
    by (simp add: w1 updInstance_def cong: if_cong)
qed



lemmas page_eval =
  examplePage_def emptyPage_def newElement_def newAnimation_def newBaseAnimation_def
  newFadeInAnimation_def newParallaxAnimation_def newAnimationManager_def
  ensureResizeListener_def updateWindowDimensions_def addEventListener_def
  updInstance_def updElement_def

lemma examplePage_hasAttributes:
  "hasAnimationAttributes newAttributeParser (attributes (el examplePage e)) = (e < 3)"
  by (simp add: hasAnimationAttributes_def getAttribute_def newAttributeParser_def
        DEFAULT_CONFIG_def examplePage_def emptyPage_def newElement_def)

lemma examplePage_geometry:
  assumes "attributes (el w 0) = attributes (el examplePage 0)"
    and "attributeParser (instances w m) = newAttributeParser"
  shows "observerGeometry exampleHost oo (getElementOptions exampleHost m 0 w)
         = oo\<lparr>rootMargin := ''10px 0px 0px 0px'', threshold := Single (Finite (1/2))\<rparr>"
  using assms
  by (simp add: observerGeometry_def getElementOptions_def parseElementOptions_def
        parseModuleName_def offsetText_def parseInviewPercentage_def trim_def jdivFinite_def
        examplePage_def emptyPage_def newElement_def parser_eval Let_def)

text \<open>
  C1. On a fresh instance the first registration, of an element with
  \<open>kw-offset-top="10px"\<close> and \<open>kw-inview="50%"\<close>, creates no observer. The second
  registration constructs observer 0, which observes element 1 only, and the third
  constructs observer 1, which observes element 2 only; both take their geometry from
  element 0.
\<close>

theorem first_registration_creates_no_observer:
  "(let w0 = snd (newAnimation Base examplePage);
        w1 = BaseAnimation_register exampleHost 0 [0] w0;
        w2 = BaseAnimation_register exampleHost 0 [1] w1;
        w3 = BaseAnimation_register exampleHost 0 [2] w2
    in fst (newAnimation Base examplePage) = 0
       \<and> elements (instances w0 0) = [] \<and> observer (instances w0 0) = None
       \<and> observer (instances w1 0) = None \<and> observers w1 = Map.empty
       \<and> elements (instances w1 0) = [0]
       \<and> observer (instances w2 0) = Some 0
       \<and> observers w2 0
           = Some \<lparr>owner = 0,
                   observerInit = \<lparr>rootMargin = ''10px 0px 0px 0px'',
                                   threshold = Single (Finite (1/2))\<rparr>,
                   targets = [1]\<rparr>
       \<and> observer (instances w3 0) = Some 1
       \<and> observers w3 1
           = Some \<lparr>owner = 0,
                   observerInit = \<lparr>rootMargin = ''10px 0px 0px 0px'',
                                   threshold = Single (Finite (1/2))\<rparr>,
                   targets = [2]\<rparr>
       \<and> observers w3 0 = observers w2 0)"
proof -
  define w0 where "w0 = snd (newAnimation Base examplePage)"
  define w1 where "w1 = BaseAnimation_register exampleHost 0 [0] w0"
  define w2 where "w2 = BaseAnimation_register exampleHost 0 [1] w1"
  define w3 where "w3 = BaseAnimation_register exampleHost 0 [2] w2"
  have m: "fst (newAnimation Base examplePage) = 0" by (simp add: page_eval)
  have a0: "instances w0 0 = newBaseAnimation" "el w0 = el examplePage"
    "observers w0 = Map.empty" "nextObserver w0 = 0"
    by (simp_all add: w0_def page_eval)
  have b0: "elements (instances w0 0) = []" "observer (instances w0 0) = None"
    "attributeParser (instances w0 0) = newAttributeParser"
    by (simp_all add: a0 newBaseAnimation_def)
  note c1 = BaseAnimation_register_first[OF b0(1) b0(2), of exampleHost "[0]", folded w1_def]
  have a1: "elements (instances w1 0) = [0]" "observer (instances w1 0) = None"
    "observers w1 = Map.empty" "nextObserver w1 = 0" "el w1 = el examplePage"
    "attributeParser (instances w1 0) = newAttributeParser"
    "observerOptions (instances w1 0) = observerOptions newBaseAnimation"
    unfolding c1 by (simp_all add: updInstance_def a0 b0 examplePage_hasAttributes newBaseAnimation_def)
  note c2 = BaseAnimation_register_later[OF a1(1), of exampleHost "[1]", folded w2_def]
  have g1: "observerGeometry exampleHost (observerOptions (instances w1 0))
              (getElementOptions exampleHost 0 0 w1)
            = \<lparr>rootMargin = ''10px 0px 0px 0px'', threshold = Single (Finite (1/2))\<rparr>"
    by (simp add: examplePage_geometry a1 newBaseAnimation_def)
  have a2: "elements (instances w2 0) = [0, 1]" "observer (instances w2 0) = Some 0"
    "observers w2 0 = Some \<lparr>owner = 0,
                   observerInit = \<lparr>rootMargin = ''10px 0px 0px 0px'',
                                   threshold = Single (Finite (1/2))\<rparr>,
                   targets = [1]\<rparr>"
    "nextObserver w2 = 1" "el w2 = el examplePage"
    "attributeParser (instances w2 0) = newAttributeParser"
    "observerOptions (instances w2 0)
       = \<lparr>rootMargin = ''10px 0px 0px 0px'', threshold = Single (Finite (1/2))\<rparr>"
    unfolding c2 g1 by (simp_all add: updInstance_def a1 examplePage_hasAttributes)
  note c3 = BaseAnimation_register_later[OF a2(1), of exampleHost "[2]", folded w3_def]
  have g2: "observerGeometry exampleHost (observerOptions (instances w2 0))
              (getElementOptions exampleHost 0 0 w2)
            = \<lparr>rootMargin = ''10px 0px 0px 0px'', threshold = Single (Finite (1/2))\<rparr>"
    by (simp add: examplePage_geometry a2)
  have a3: "observer (instances w3 0) = Some 1"
    "observers w3 1 = Some \<lparr>owner = 0,
                   observerInit = \<lparr>rootMargin = ''10px 0px 0px 0px'',
                                   threshold = Single (Finite (1/2))\<rparr>,
                   targets = [2]\<rparr>"
    "observers w3 0 = observers w2 0"
    unfolding c3 g2 by (simp_all add: updInstance_def a2 examplePage_hasAttributes)
  show ?thesis
    unfolding Let_def w0_def[symmetric] w1_def[symmetric] w2_def[symmetric] w3_def[symmetric]
    using m b0 a1 a2 a3 by simp
qed








section \<open>The scroll listener of ParallaxAnimation\<close>


lemma foldl_preserves:
  assumes "\<And>w e. g (f w e) = g w"
  shows "g (foldl f w es) = g w"
  by (induction es arbitrary: w) (simp_all add: assms)

lemma registerElement_window:
  "windowListeners (registerElement H m w e) = windowListeners w"
  "nextFunction (registerElement H m w e) = nextFunction w"
  "scrollListenerAttached (instances (registerElement H m w e) n) = scrollListenerAttached (instances w n)"
  by (simp_all add: registerElement_def observe_def updInstance_def Let_def split: option.splits)

lemma initObserver_window:
  "windowListeners (initObserver H m w) = windowListeners w"
  "nextFunction (initObserver H m w) = nextFunction w"
  "scrollListenerAttached (instances (initObserver H m w) n) = scrollListenerAttached (instances w n)"
  by (simp_all add: initObserver_def updInstance_def Let_def split: list.splits)

lemma BaseAnimation_register_window:
  "windowListeners (BaseAnimation_register H m es w) = windowListeners w"
  "nextFunction (BaseAnimation_register H m es w) = nextFunction w"
  "scrollListenerAttached (instances (BaseAnimation_register H m es w) n) = scrollListenerAttached (instances w n)"
  unfolding BaseAnimation_register_def
  by (simp_all add: foldl_preserves[where g=windowListeners] foldl_preserves[where g=nextFunction]
        foldl_preserves[where g="\<lambda>w. scrollListenerAttached (instances w n)"]
        registerElement_window initObserver_window)

lemma getOptions_window:
  "windowListeners (snd (getOptions H m e w)) = windowListeners w"
  "nextFunction (snd (getOptions H m e w)) = nextFunction w"
  "scrollListenerAttached (instances (snd (getOptions H m e w)) n) = scrollListenerAttached (instances w n)"
  by (simp_all add: getOptions_def updInstance_def Let_def split: option.splits)

lemma updateParallaxElement_window:
  "windowListeners (updateParallaxElement H m vh w e) = windowListeners w"
  "nextFunction (updateParallaxElement H m vh w e) = nextFunction w"
  "scrollListenerAttached (instances (updateParallaxElement H m vh w e) n) = scrollListenerAttached (instances w n)"
  by (simp_all add: updateParallaxElement_def applyParallaxEffect_def setProgress_def
        getOptions_def updInstance_def updElement_def Let_def split: option.splits prod.splits)

lemma updateParallaxElements_window:
  "windowListeners (updateParallaxElements H m w) = windowListeners w"
  "nextFunction (updateParallaxElements H m w) = nextFunction w"
  "scrollListenerAttached (instances (updateParallaxElements H m w) n) = scrollListenerAttached (instances w n)"
  unfolding updateParallaxElements_def
  by (simp_all add: foldl_preserves[where g=windowListeners] foldl_preserves[where g=nextFunction]
        foldl_preserves[where g="\<lambda>w. scrollListenerAttached (instances w n)"]
        updateParallaxElement_window)

lemma unobserve_window:
  "windowListeners (unobserve oid e w) = windowListeners w"
  "nextFunction (unobserve oid e w) = nextFunction w"
  "frames (unobserve oid e w) = frames w"
  "instances (unobserve oid e w) = instances w"
  by (simp_all add: unobserve_def split: option.splits)

lemma BaseAnimation_destroy_window:
  "windowListeners (BaseAnimation_destroy m w) = windowListeners w"
  "nextFunction (BaseAnimation_destroy m w) = nextFunction w"
  "frames (BaseAnimation_destroy m w) = frames w"
  "scrollListenerAttached (instances (BaseAnimation_destroy m w) n) = scrollListenerAttached (instances w n)"
  "rafId (instances (BaseAnimation_destroy m w) n) = rafId (instances w n)"
  by (simp_all add: BaseAnimation_destroy_def disconnect_def updInstance_def Let_def
        foldl_preserves[where g=windowListeners] foldl_preserves[where g=nextFunction]
        foldl_preserves[where g=frames] foldl_preserves[where g=instances] unobserve_window
        split: option.splits)

lemma filter_fresh_listener:
  assumes "boundFunctionsAllocated w"
  shows "filter (\<lambda>l. l \<noteq> (ty, HandleScroll (nextFunction w) m)) (windowListeners w) = windowListeners w"
proof -
  have "\<forall>l\<in>set (windowListeners w). l \<noteq> (ty, HandleScroll (nextFunction w) m)"
    using assms by (auto simp: boundFunctionsAllocated_def list_all_iff)
  then show ?thesis by (simp add: filter_id_conv)
qed

text \<open>
  C10. \<open>ParallaxAnimation.destroy\<close> removes no listener from \<open>window\<close>: the function it
  passes to \<open>removeEventListener\<close> is a new object, different from every listener installed.
  It clears the flag \<open>scrollListenerAttached\<close> and cancels the pending animation frame. The
  listener in question is the one that \<open>register\<close> installs when the flag is not set.
\<close>

theorem ParallaxAnimation_destroy_keeps_scroll_listener:
  assumes "boundFunctionsAllocated w"
  shows "windowListeners (ParallaxAnimation_destroy m w) = windowListeners w
     \<and> \<not> scrollListenerAttached (instances (ParallaxAnimation_destroy m w) m)
     \<and> rafId (instances (ParallaxAnimation_destroy m w) m) = None
     \<and> (\<forall>r. rafId (instances w m) = Some r \<longrightarrow> frames (ParallaxAnimation_destroy m w) r = None)
     \<and> (\<not> scrollListenerAttached (instances w m) \<longrightarrow>
          (''scroll'', HandleScroll (nextFunction w) m)
            \<in> set (windowListeners (ParallaxAnimation_register H m es w))
          \<and> scrollListenerAttached (instances (ParallaxAnimation_register H m es w) m)
          \<and> boundFunctionsAllocated (ParallaxAnimation_register H m es w))"
proof (intro conjI allI impI)
  let ?w1 = "BaseAnimation_destroy m w"
  have wl: "windowListeners ?w1 = windowListeners w" and nf: "nextFunction ?w1 = nextFunction w"
    by (simp_all add: BaseAnimation_destroy_window)
  have al: "boundFunctionsAllocated ?w1"
    using assms unfolding boundFunctionsAllocated_def wl nf .
  show "windowListeners (ParallaxAnimation_destroy m w) = windowListeners w"
    using filter_fresh_listener[OF al, of "''scroll''" m]
    by (simp add: ParallaxAnimation_destroy_def Let_def removeEventListener_def updInstance_def
          cancelAnimationFrame_def wl split: option.splits)
  show "\<not> scrollListenerAttached (instances (ParallaxAnimation_destroy m w) m)"
    by (simp add: ParallaxAnimation_destroy_def Let_def removeEventListener_def updInstance_def
          cancelAnimationFrame_def split: option.splits)
  show "rafId (instances (ParallaxAnimation_destroy m w) m) = None"
    by (simp add: ParallaxAnimation_destroy_def Let_def removeEventListener_def updInstance_def
          cancelAnimationFrame_def split: option.splits)
next
  fix r assume "rafId (instances w m) = Some r"
  then show "frames (ParallaxAnimation_destroy m w) r = None"
    by (simp add: ParallaxAnimation_destroy_def Let_def removeEventListener_def updInstance_def
          cancelAnimationFrame_def BaseAnimation_destroy_window split: option.splits)
next
  assume na: "\<not> scrollListenerAttached (instances w m)"
  let ?w1 = "BaseAnimation_register H m es w"
  have f: "windowListeners ?w1 = windowListeners w" "nextFunction ?w1 = nextFunction w"
    "\<not> scrollListenerAttached (instances ?w1 m)"
    using na by (simp_all add: BaseAnimation_register_window)
  show "(''scroll'', HandleScroll (nextFunction w) m)
            \<in> set (windowListeners (ParallaxAnimation_register H m es w))"
    using f by (simp add: ParallaxAnimation_register_def Let_def updateParallaxElements_window
          updInstance_def addEventListener_def)
  show "scrollListenerAttached (instances (ParallaxAnimation_register H m es w) m)"
    using f by (simp add: ParallaxAnimation_register_def Let_def updateParallaxElements_window
          updInstance_def addEventListener_def)
  show "boundFunctionsAllocated (ParallaxAnimation_register H m es w)"
    using f assms
    by (auto simp add: ParallaxAnimation_register_def Let_def updateParallaxElements_window
          updInstance_def addEventListener_def boundFunctionsAllocated_def list_all_iff
          split: listener.splits)
qed


lemma freshParallax:
  "fst (newAnimation Parallax parallaxPage) = 0"
  "boundFunctionsAllocated (snd (newAnimation Parallax parallaxPage))"
  "nextFunction (snd (newAnimation Parallax parallaxPage)) = 0"
  "\<not> scrollListenerAttached (instances (snd (newAnimation Parallax parallaxPage)) 0)"
  by (simp_all add: parallaxPage_def boundFunctionsAllocated_def page_eval)

theorem ParallaxAnimation_destroy_keeps_scroll_listener_witness:
  "boundFunctionsAllocated (snd (newAnimation Parallax parallaxPage))
   \<and> (''scroll'', HandleScroll 0 0)
       \<in> set (windowListeners (ParallaxAnimation_register exampleHost 0 [0]
                                  (snd (newAnimation Parallax parallaxPage))))
   \<and> (''scroll'', HandleScroll 0 0)
       \<in> set (windowListeners (ParallaxAnimation_destroy 0
                 (ParallaxAnimation_register exampleHost 0 [0]
                    (snd (newAnimation Parallax parallaxPage)))))
   \<and> \<not> scrollListenerAttached (instances (ParallaxAnimation_destroy 0
                 (ParallaxAnimation_register exampleHost 0 [0]
                    (snd (newAnimation Parallax parallaxPage)))) 0)"
proof -
  define w0 where "w0 = snd (newAnimation Parallax parallaxPage)"
  define w1 where "w1 = ParallaxAnimation_register exampleHost 0 [0] w0"
  have a0: "boundFunctionsAllocated w0" "nextFunction w0 = 0"
    "\<not> scrollListenerAttached (instances w0 0)"
    by (simp_all add: w0_def freshParallax)
  from ParallaxAnimation_destroy_keeps_scroll_listener[OF a0(1), of 0 exampleHost "[0]"] a0
  have a1: "(''scroll'', HandleScroll 0 0) \<in> set (windowListeners w1)"
    "boundFunctionsAllocated w1"
    by (simp_all add: w1_def)
  from ParallaxAnimation_destroy_keeps_scroll_listener[OF a1(2), of 0 exampleHost "[]"] a1
  have a2: "(''scroll'', HandleScroll 0 0) \<in> set (windowListeners (ParallaxAnimation_destroy 0 w1))"
    "\<not> scrollListenerAttached (instances (ParallaxAnimation_destroy 0 w1) 0)"
    by simp_all
  show ?thesis
    unfolding w0_def[symmetric] w1_def[symmetric] using a0 a1 a2 by simp
qed

section \<open>Reset and the repeat option\<close>












section \<open>Shutdown of the manager\<close>


























section \<open>The scans of the manager\<close>
























section \<open>The methods of the manager\<close>

text \<open>
  C8. The class \<open>AnimationManager\<close> declares no method \<open>update\<close>: its public methods are
  \<open>use\<close>, \<open>updateConfig\<close>, \<open>registerModule\<close>, \<open>getModule\<close>, \<open>init\<close> and \<open>destroy\<close>, and the
  re-scan, \<open>initDynamicElements\<close>, is private.
\<close>

theorem AnimationManager_has_no_update:
  "map_of AnimationManager_methods ''update'' = None
   \<and> map_of AnimationManager_methods ''updateConfig'' = Some Public
   \<and> map_of AnimationManager_methods ''initDynamicElements'' = Some Private
   \<and> [n \<leftarrow> map fst AnimationManager_methods. map_of AnimationManager_methods n = Some Public]
       = [''use'', ''updateConfig'', ''registerModule'', ''getModule'', ''init'', ''destroy'']"
  by (simp add: AnimationManager_methods_def)

end
